theory Spec2Isabelle
  imports Main
begin

section \<open>Go strings and the library functions the proxy layer calls\<close>

text \<open>
  A Go \<open>string\<close> is a sequence of bytes; it is modelled as \<open>string\<close> (a list of 8-bit
  \<open>char\<close>s).  The functions of this section are those of the Go standard library that
  the handlers of \<open>RegisterCodespacesRoutes\<close> and the \<open>CodespacesClient\<close> call:
  \<open>strings.HasSuffix\<close>, \<open>strings.TrimPrefix\<close>, \<open>strings.TrimSuffix\<close>,
  \<open>strings.Fields\<close>, \<open>strings.TrimSpace\<close> (and \<open>bytes.TrimSpace\<close>),
  \<open>strings.ToLower\<close>, \<open>bytes.Split\<close> and \<open>http.Header.Get\<close>.
\<close>

definition HasPrefix :: "string \<Rightarrow> string \<Rightarrow> bool" where
  "HasPrefix s p = (length p \<le> length s \<and> take (length p) s = p)"

definition HasSuffix :: "string \<Rightarrow> string \<Rightarrow> bool" where
  "HasSuffix s x = (length x \<le> length s \<and> drop (length s - length x) s = x)"

definition TrimPrefix :: "string \<Rightarrow> string \<Rightarrow> string" where
  "TrimPrefix s p = (if HasPrefix s p then drop (length p) s else s)"

definition TrimSuffix :: "string \<Rightarrow> string \<Rightarrow> string" where
  "TrimSuffix s x = (if HasSuffix s x then take (length s - length x) s else s)"

text \<open>
  \<open>unicode.IsSpace\<close> holds of the code points U+0009..U+000D, U+0020, U+0085, U+00A0,
  U+1680, U+2000..U+200A, U+2028, U+2029, U+202F, U+205F and U+3000.  \<open>spaceWidth s\<close>
  is the number of bytes that the UTF-8 encoding of such a code point takes at the head
  of \<open>s\<close>, and 0 when \<open>s\<close> does not start with one.  Every one of these encodings starts
  with a byte that is not a UTF-8 continuation byte, and the decoder of Go advances by
  one byte on an invalid sequence, so a white space rune of a Go string is exactly an
  occurrence of one of these byte sequences.
\<close>

definition spaceWidth :: "string \<Rightarrow> nat" where
  "spaceWidth s =
     (case map of_char (take 3 s) :: nat list of
        [] \<Rightarrow> 0
      | b0 # bs \<Rightarrow>
          if (9 \<le> b0 \<and> b0 \<le> 13) \<or> b0 = 32 then 1
          else (case bs of
                  [] \<Rightarrow> 0
                | b1 # bs' \<Rightarrow>
                    if b0 = 194 \<and> (b1 = 133 \<or> b1 = 160) then 2
                    else (case bs' of
                            [] \<Rightarrow> 0
                          | b2 # _ \<Rightarrow>
                              if (b0 = 225 \<and> b1 = 154 \<and> b2 = 128)
                                 \<or> (b0 = 226 \<and> b1 = 128 \<and> 128 \<le> b2 \<and> b2 \<le> 138)
                                 \<or> (b0 = 226 \<and> b1 = 128 \<and> (b2 = 168 \<or> b2 = 169 \<or> b2 = 175))
                                 \<or> (b0 = 226 \<and> b1 = 129 \<and> b2 = 159)
                                 \<or> (b0 = 227 \<and> b1 = 128 \<and> b2 = 128)
                              then 3 else 0)))"

text \<open>
  \<open>chunks s\<close> cuts \<open>s\<close> into its white space runes (tagged \<open>True\<close>) and the single
  bytes in between (tagged \<open>False\<close>).
\<close>

function chunks :: "string \<Rightarrow> (bool \<times> string) list" where
  "chunks [] = []"
| "chunks (c # s) =
     (if spaceWidth (c # s) = 0 then (False, [c]) # chunks s
      else (True, take (spaceWidth (c # s)) (c # s)) # chunks (drop (spaceWidth (c # s)) (c # s)))"
  by pat_completeness auto
termination
  by (relation "measure length") (auto simp: Suc_le_eq less_Suc_eq_le)

text \<open>
  \<open>strings.Fields\<close>: the maximal runs of bytes between white space runes; never an
  empty field, and the empty list when the string holds white space only.
\<close>

fun fieldsOf :: "string \<Rightarrow> (bool \<times> string) list \<Rightarrow> string list" where
  "fieldsOf cur [] = (if cur = [] then [] else [cur])"
| "fieldsOf cur ((sp, bs) # cs) =
     (if sp then (if cur = [] then [] else [cur]) @ fieldsOf [] cs
      else fieldsOf (cur @ bs) cs)"

definition Fields :: "string \<Rightarrow> string list" where
  "Fields s = fieldsOf [] (chunks s)"

text \<open>\<open>strings.TrimSpace\<close>: all leading and trailing white space runes removed.\<close>

definition TrimSpace :: "string \<Rightarrow> string" where
  "TrimSpace s = concat (map snd (rev (dropWhile fst (rev (dropWhile fst (chunks s))))))"

text \<open>
  \<open>strings.ToLower\<close> has a fast path for strings of ASCII bytes, which maps \<open>A\<close>..\<open>Z\<close>
  to \<open>a\<close>..\<open>z\<close>; any other string goes through \<open>strings.Map(unicode.ToLower, s)\<close>,
  which depends on the case tables of the Unicode data base and is taken as the
  parameter \<open>uni\<close>.
\<close>

definition asciiLower :: "char \<Rightarrow> char" where
  "asciiLower c = (if 65 \<le> (of_char c :: nat) \<and> (of_char c :: nat) \<le> 90
                   then char_of ((of_char c :: nat) + 32) else c)"

definition ToLower :: "(string \<Rightarrow> string) \<Rightarrow> string \<Rightarrow> string" where
  "ToLower uni s = (if list_all (\<lambda>c. (of_char c :: nat) < 128) s then map asciiLower s else uni s)"

text \<open>
  \<open>bytes.Split(s, sep)\<close> with the one-byte separator \<open>sep\<close>: the pieces of \<open>s\<close> between
  the occurrences of \<open>sep\<close>; one piece more than there are separators.
\<close>

fun Split :: "string \<Rightarrow> char \<Rightarrow> string list" where
  "Split [] sep = [] # []"
| "Split (c # s) sep =
     (if c = sep then [] # Split s sep
      else (case Split s sep of p # ps \<Rightarrow> (c # p) # ps | [] \<Rightarrow> [c] # []))"

text \<open>
  \<open>textproto.CanonicalMIMEHeaderKey\<close>: a key made of header field bytes only gets an
  upper case letter at its start and after each hyphen and lower case letters
  elsewhere; any other key is returned as it is.
\<close>

definition validHeaderFieldByte :: "char \<Rightarrow> bool" where
  "validHeaderFieldByte c =
     ((48 \<le> (of_char c :: nat) \<and> (of_char c :: nat) \<le> 57)
      \<or> (65 \<le> (of_char c :: nat) \<and> (of_char c :: nat) \<le> 90)
      \<or> (97 \<le> (of_char c :: nat) \<and> (of_char c :: nat) \<le> 122)
      \<or> (of_char c :: nat) \<in> {33, 35, 36, 37, 38, 39, 42, 43, 45, 46, 94, 95, 96, 124, 126})"

definition asciiUpper :: "char \<Rightarrow> char" where
  "asciiUpper c = (if 97 \<le> (of_char c :: nat) \<and> (of_char c :: nat) \<le> 122
                   then char_of ((of_char c :: nat) - 32) else c)"

fun canonCase :: "bool \<Rightarrow> string \<Rightarrow> string" where
  "canonCase upper [] = []"
| "canonCase upper (c # s) =
     (let c' = (if upper then asciiUpper c else asciiLower c)
      in c' # canonCase (c' = CHR ''-'') s)"

definition CanonicalMIMEHeaderKey :: "string \<Rightarrow> string" where
  "CanonicalMIMEHeaderKey s = (if list_all validHeaderFieldByte s then canonCase True s else s)"

text \<open>
  \<open>http.Header\<close> is a Go map from canonical keys to lists of values.  \<open>Get\<close> returns
  the first value of the canonical form of the key, and the empty string when there is
  none; \<open>Set\<close> replaces the values of the key by the single given one.
\<close>

type_synonym header = "string \<rightharpoonup> string list"

definition header_Get :: "header \<Rightarrow> string \<Rightarrow> string" where
  "header_Get h key =
     (case h (CanonicalMIMEHeaderKey key) of
        None \<Rightarrow> []
      | Some [] \<Rightarrow> []
      | Some (v # _) \<Rightarrow> v)"

definition header_Set :: "header \<Rightarrow> string \<Rightarrow> string \<Rightarrow> header" where
  "header_Set h key v = h(CanonicalMIMEHeaderKey key \<mapsto> [v])"

text \<open>
  \<open>url.PathEscape\<close>: letters, digits and the bytes \<open>- _ . ~ $ & + : = @\<close> stay; every
  other byte becomes \<open>%XX\<close> with upper case hexadecimal digits.
\<close>

definition shouldEscape :: "char \<Rightarrow> bool" where
  "shouldEscape c =
     (\<not> ((48 \<le> (of_char c :: nat) \<and> (of_char c :: nat) \<le> 57)
         \<or> (65 \<le> (of_char c :: nat) \<and> (of_char c :: nat) \<le> 90)
         \<or> (97 \<le> (of_char c :: nat) \<and> (of_char c :: nat) \<le> 122)
         \<or> c \<in> set ''-_.~$&+:=@''))"

definition upperhex :: "nat \<Rightarrow> char" where
  "upperhex n = ''0123456789ABCDEF'' ! (n mod 16)"

fun PathEscape :: "string \<Rightarrow> string" where
  "PathEscape [] = []"
| "PathEscape (c # s) =
     (if shouldEscape c
      then CHR ''%'' # upperhex ((of_char c :: nat) div 16) # upperhex ((of_char c :: nat) mod 16)
           # PathEscape s
      else c # PathEscape s)"

section \<open>Requests, responses, errors and the environment\<close>

text \<open>
  Go's \<open>error\<close> values.  \<open>ExternalError\<close> is an error made outside the code of this
  repository, with its message (a transport failure of \<open>HTTPClient.Do\<close>, a failed read
  of a body, a JSON error; where such an error can arise, the model has a sum with the
  message on the left); \<open>MarshalBody\<close> is \<open>fmt.Errorf("marshal body: %w", err)\<close>;
  \<open>GithubStatus\<close> is \<open>fmt.Errorf("github returned status %d", status)\<close>;
  \<open>InsufficientScopeError\<close> is the struct of that name with its fields \<open>Required\<close> and
  \<open>Granted\<close>.  A Go slice that may be \<open>nil\<close> is a \<open>list option\<close>, \<open>None\<close> for \<open>nil\<close>.
\<close>

datatype go_error =
    ExternalError string
  | MarshalBody go_error
  | GithubStatus int
  | InsufficientScopeError "string list" "string list option"

text \<open>
  The run-time panics: an index expression \<open>parts[i]\<close> out of range, with the length;
  and \<open>WriteHeader\<close> called with a status code that is not a three-digit number (the
  \<open>invalid WriteHeader code\<close> panic of \<open>net/http\<close>, which the server's response writer
  and the recorder of \<open>httptest\<close> both raise).
\<close>

datatype panic = IndexOutOfRange nat nat | InvalidWriteHeaderCode int

text \<open>
  The inbound \<open>*http.Request\<close>: its method, \<open>URL.Path\<close>, header, and what
  \<open>io.ReadAll(r.Body)\<close> returns.
\<close>

record http_request =
  Method :: string
  Path :: string
  Header :: header
  Body :: "string + string"

text \<open>
  What a handler has done to its \<open>http.ResponseWriter\<close> when it returns: the status
  given to \<open>WriteHeader\<close>, the header map at that moment, and the bytes written.
\<close>

record http_response =
  Code :: int
  RespHeader :: header
  Written :: string

text \<open>
  The request that the client sends upstream.  \<open>reqPath\<close> is the path given to
  \<open>newRequest\<close>, which is resolved against \<open>BaseURL\<close>; \<open>reqBody\<close> is \<open>None\<close> for a
  \<open>nil\<close> reader.
\<close>

record upstream_request =
  reqMethod :: string
  reqPath :: string
  reqHeader :: header
  reqBody :: "string option"

text \<open>
  The \<open>*http.Response\<close> that \<open>HTTPClient.Do\<close> returns, with what
  \<open>io.ReadAll(resp.Body)\<close> returns.
\<close>

record upstream_response =
  StatusCode :: int
  UpHeader :: header
  UpBody :: "string + string"

text \<open>
  What the code takes from outside: the upstream behind \<open>HTTPClient.Do\<close>,
  \<open>json.Unmarshal\<close> into an \<open>interface{}\<close> (\<open>None\<close> is the \<open>nil\<close> interface value that
  the JSON text \<open>null\<close> gives) and \<open>json.Marshal\<close> over the values \<open>'j\<close> it produces, and
  the Unicode path of \<open>strings.ToLower\<close>.
\<close>

record 'j env =
  Do :: "upstream_request \<Rightarrow> string + upstream_response"
  Unmarshal :: "string \<Rightarrow> string + 'j option"
  Marshal :: "'j \<Rightarrow> string + string"
  unicodeToLower :: "string \<Rightarrow> string"

text \<open>
  \<open>http.Error\<close> on a fresh writer: two headers, the status, the message and a newline.
  The code calls it with the constants 400, 401, 403, 405, 500 and 502 only, for which
  \<open>WriteHeader\<close> does not panic.
\<close>

definition http_Error :: "string \<Rightarrow> int \<Rightarrow> http_response" where
  "http_Error msg code =
     \<lparr>Code = code,
      RespHeader = header_Set (header_Set Map.empty ''Content-Type'' ''text/plain; charset=utf-8'')
                     ''X-Content-Type-Options'' ''nosniff'',
      Written = msg @ [CHR 0x0A]\<rparr>"

section \<open>The upstream client (\<open>pkg/github/codespaces_client.go\<close>)\<close>

text \<open>
  Every function that may call the upstream returns, next to its Go results, the list
  of the requests it has given to \<open>HTTPClient.Do\<close>, in order.

  \<open>newRequest\<close> fails only when the body cannot be marshalled:
  \<open>http.NewRequestWithContext\<close> gets one of the constant methods \<open>GET\<close>, \<open>POST\<close>,
  \<open>DELETE\<close> and the text of a URL that \<open>ResolveReference\<close> has built, and returns no
  error for them.
\<close>

definition newRequest ::
  "'j env \<Rightarrow> string \<Rightarrow> string \<Rightarrow> string \<Rightarrow> 'j option \<Rightarrow> go_error + upstream_request" where
  "newRequest e method path token body =
     (case (case body of
              None \<Rightarrow> Inr None
            | Some b \<Rightarrow> (case Marshal e b of
                          Inl msg \<Rightarrow> Inl (MarshalBody (ExternalError msg))
                        | Inr bs \<Rightarrow> Inr (Some bs))) of
        Inl err \<Rightarrow> Inl err
      | Inr buf \<Rightarrow>
          (let h0 = header_Set Map.empty ''Accept'' ''application/vnd.github+json;apiVersion=2022-11-28'';
               h1 = header_Set h0 ''User-Agent'' ''github-mcp-server/codespaces-client'';
               h2 = (if body \<noteq> None then header_Set h1 ''Content-Type'' ''application/json'' else h1);
               h3 = (if token \<noteq> [] then header_Set h2 ''Authorization'' (''token '' @ token) else h2)
           in Inr \<lparr>reqMethod = method, reqPath = path, reqHeader = h3, reqBody = buf\<rparr>))"

text \<open>\<open>doRaw\<close> returns status, header, body and error, in this order.\<close>

definition doRaw ::
  "'j env \<Rightarrow> upstream_request \<Rightarrow> (int \<times> header \<times> string \<times> go_error option) \<times> upstream_request list" where
  "doRaw e req =
     (case Do e req of
        Inl msg \<Rightarrow> ((0, Map.empty, [], Some (ExternalError msg)), [req])
      | Inr resp \<Rightarrow>
          (case UpBody resp of
             Inl msg \<Rightarrow> ((StatusCode resp, UpHeader resp, [], Some (ExternalError msg)), [req])
           | Inr bs \<Rightarrow> ((StatusCode resp, UpHeader resp, bs, None), [req])))"

definition elems :: "'a list option \<Rightarrow> 'a list" where
  "elems sl = (case sl of None \<Rightarrow> [] | Some xs \<Rightarrow> xs)"

definition append_slice :: "'a list option \<Rightarrow> 'a \<Rightarrow> 'a list option" where
  "append_slice sl x = Some (elems sl @ [x])"

definition GetTokenScopes ::
  "'j env \<Rightarrow> string \<Rightarrow> (string list option \<times> go_error option) \<times> upstream_request list" where
  "GetTokenScopes e token =
     (case newRequest e ''GET'' ''/'' token None of
        Inl err \<Rightarrow> ((None, Some err), [])
      | Inr req \<Rightarrow>
          (case doRaw e req of
             ((status, hdr, _, Some err), calls) \<Rightarrow> ((None, Some err), calls)
           | ((status, hdr, _, None), calls) \<Rightarrow>
               if status \<ge> 400 then ((None, Some (GithubStatus status)), calls)
               else (let raw = header_Get hdr ''X-OAuth-Scopes''
                     in if raw = [] then ((Some [], None), calls)
                        else ((foldl (\<lambda>scopes s. append_slice scopes (TrimSpace s)) None
                                 (Split raw (CHR '','')), None), calls))))"

text \<open>
  The six operations have one body: \<open>newRequest\<close>, then \<open>return 0, nil, nil, err\<close> when
  it has failed and \<open>return c.doRaw(req)\<close> otherwise; \<open>viaDoRaw\<close> is that tail.  They
  declare their results as status, body, header, error, while \<open>doRaw\<close> returns status,
  header, body, error: the body and the header of \<open>doRaw\<close> are taken each for the
  result of its own type, which is how the handlers use them.
\<close>

definition viaDoRaw ::
  "'j env \<Rightarrow> go_error + upstream_request \<Rightarrow>
   (int \<times> string \<times> header \<times> go_error option) \<times> upstream_request list" where
  "viaDoRaw e rq =
     (case rq of
        Inl err \<Rightarrow> ((0, [], Map.empty, Some err), [])
      | Inr req \<Rightarrow>
          (case doRaw e req of ((status, hdr, bs, err), calls) \<Rightarrow> ((status, bs, hdr, err), calls)))"

definition ListCodespaces ::
  "'j env \<Rightarrow> string \<Rightarrow> (int \<times> string \<times> header \<times> go_error option) \<times> upstream_request list" where
  "ListCodespaces e token = viaDoRaw e (newRequest e ''GET'' ''/user/codespaces'' token None)"

definition GetCodespace ::
  "'j env \<Rightarrow> string \<Rightarrow> string \<Rightarrow> (int \<times> string \<times> header \<times> go_error option) \<times> upstream_request list" where
  "GetCodespace e token name =
     viaDoRaw e (newRequest e ''GET'' (''/user/codespaces/'' @ PathEscape name) token None)"

definition CreateCodespace ::
  "'j env \<Rightarrow> string \<Rightarrow> 'j option \<Rightarrow> (int \<times> string \<times> header \<times> go_error option) \<times> upstream_request list" where
  "CreateCodespace e token body = viaDoRaw e (newRequest e ''POST'' ''/user/codespaces'' token body)"

definition StartCodespace ::
  "'j env \<Rightarrow> string \<Rightarrow> string \<Rightarrow> (int \<times> string \<times> header \<times> go_error option) \<times> upstream_request list" where
  "StartCodespace e token name =
     viaDoRaw e (newRequest e ''POST'' (''/user/codespaces/'' @ PathEscape name @ ''/start'') token None)"

definition StopCodespace ::
  "'j env \<Rightarrow> string \<Rightarrow> string \<Rightarrow> (int \<times> string \<times> header \<times> go_error option) \<times> upstream_request list" where
  "StopCodespace e token name =
     viaDoRaw e (newRequest e ''POST'' (''/user/codespaces/'' @ PathEscape name @ ''/stop'') token None)"

definition DeleteCodespace ::
  "'j env \<Rightarrow> string \<Rightarrow> string \<Rightarrow> (int \<times> string \<times> header \<times> go_error option) \<times> upstream_request list" where
  "DeleteCodespace e token name =
     viaDoRaw e (newRequest e ''DELETE'' (''/user/codespaces/'' @ PathEscape name) token None)"

section \<open>Token extraction, the scope gate and the response writer\<close>

text \<open>
  \<open>extractToken\<close>: \<open>parts[0]\<close> when there is one field, \<open>parts[1]\<close> otherwise, which
  panics when there are no fields at all.
\<close>

definition extractToken :: "http_request \<Rightarrow> panic + string" where
  "extractToken r =
     (let auth = header_Get (Header r) ''Authorization'';
          auth = (if auth = [] then header_Get (Header r) ''X-Github-Token'' else auth)
      in if auth = [] then Inr []
         else (let parts = Fields auth
               in if length parts = 1 then Inr (parts ! 0)
                  else if 1 < length parts then Inr (parts ! 1)
                  else Inl (IndexOutOfRange 1 (length parts))))"

text \<open>
  \<open>ensureScopes\<close>: \<open>have\<close> is the Go map from the trimmed, lower-cased granted scopes to
  \<open>true\<close>, read with \<open>false\<close> for an absent key; the loop over \<open>required\<close> returns at the
  first scope that is not in it.
\<close>

fun checkRequired ::
  "(string \<Rightarrow> string) \<Rightarrow> (string \<Rightarrow> bool) \<Rightarrow> go_error \<Rightarrow> string list \<Rightarrow> go_error option" where
  "checkRequired uni have err [] = None"
| "checkRequired uni have err (r # rs) =
     (if \<not> have (ToLower uni r) then Some err else checkRequired uni have err rs)"

definition haveOf :: "(string \<Rightarrow> string) \<Rightarrow> string list option \<Rightarrow> string \<Rightarrow> bool" where
  "haveOf uni scopes = foldl (\<lambda>m s. m(ToLower uni (TrimSpace s) := True)) (\<lambda>_. False) (elems scopes)"

definition ensureScopes ::
  "'j env \<Rightarrow> string \<Rightarrow> string list \<Rightarrow> go_error option \<times> upstream_request list" where
  "ensureScopes e token required =
     (case GetTokenScopes e token of
        ((scopes, Some err), calls) \<Rightarrow> (Some err, calls)
      | ((scopes, None), calls) \<Rightarrow>
          (checkRequired (unicodeToLower e) (haveOf (unicodeToLower e) scopes)
             (InsufficientScopeError required scopes) required,
           calls))"

text \<open>The type assertion \<open>err.(*InsufficientScopeError)\<close>.\<close>

fun isInsufficientScope :: "go_error \<Rightarrow> bool" where
  "isInsufficientScope (InsufficientScopeError req granted) = True"
| "isInsufficientScope _ = False"

text \<open>
  \<open>checkWriteHeaderCode\<close> of \<open>net/http\<close>, which \<open>WriteHeader\<close> runs first: it panics for
  a code below 100 or above 999.
\<close>

definition checkWriteHeaderCode :: "int \<Rightarrow> panic option" where
  "checkWriteHeaderCode code =
     (if code < 100 \<or> code > 999 then Some (InvalidWriteHeaderCode code) else None)"

text \<open>
  \<open>writeProxyResponse\<close> sets the content type, calls \<open>WriteHeader(status)\<close> and then
  writes the body; when \<open>WriteHeader\<close> panics nothing has been written.
\<close>

definition writeProxyResponse :: "int \<Rightarrow> header \<Rightarrow> string \<Rightarrow> panic + http_response" where
  "writeProxyResponse status hdr body =
     (let h = (if header_Get hdr ''Content-Type'' \<noteq> []
               then header_Set Map.empty ''Content-Type'' (header_Get hdr ''Content-Type'')
               else header_Set Map.empty ''Content-Type'' ''application/json'')
      in case checkWriteHeaderCode status of
           Some p \<Rightarrow> Inl p
         | None \<Rightarrow>
             Inr \<lparr>Code = status, RespHeader = h,
                  Written = (if length body > 0 then body else [])\<rparr>)"

section \<open>The handlers\<close>

text \<open>
  A handler returns what it has written to its response writer, or the panic that ended
  it before anything was written, and the requests that went upstream.  The
  \<open>log.Printf\<close> calls are left out.
\<close>

definition handleListCodespaces ::
  "'j env \<Rightarrow> http_request \<Rightarrow> (panic + http_response) \<times> upstream_request list" where
  "handleListCodespaces e r =
     (case extractToken r of
        Inl p \<Rightarrow> (Inl p, [])
      | Inr token \<Rightarrow>
          if token = [] then (Inr (http_Error ''missing Authorization token'' 401), [])
          else (case ensureScopes e token [''codespaces''] of
                  (Some err, calls) \<Rightarrow>
                    if isInsufficientScope err
                    then (Inr (http_Error ''insufficient token scopes: requires codespaces'' 403), calls)
                    else (Inr (http_Error ''failed to validate token scopes'' 500), calls)
                | (None, calls) \<Rightarrow>
                    (case ListCodespaces e token of
                       ((status, body, hdr, Some err), calls') \<Rightarrow>
                         (Inr (http_Error ''failed to call GitHub'' 502), calls @ calls')
                     | ((status, body, hdr, None), calls') \<Rightarrow>
                         (writeProxyResponse status hdr body, calls @ calls'))))"

definition handleGetCodespace ::
  "'j env \<Rightarrow> http_request \<Rightarrow> string \<Rightarrow> (panic + http_response) \<times> upstream_request list" where
  "handleGetCodespace e r name =
     (case extractToken r of
        Inl p \<Rightarrow> (Inl p, [])
      | Inr token \<Rightarrow>
          if token = [] then (Inr (http_Error ''missing Authorization token'' 401), [])
          else (case ensureScopes e token [''codespaces''] of
                  (Some err, calls) \<Rightarrow>
                    if isInsufficientScope err
                    then (Inr (http_Error ''insufficient token scopes: requires codespaces'' 403), calls)
                    else (Inr (http_Error ''failed to validate token scopes'' 500), calls)
                | (None, calls) \<Rightarrow>
                    (case GetCodespace e token name of
                       ((status, body, hdr, Some err), calls') \<Rightarrow>
                         (Inr (http_Error ''failed to call GitHub'' 502), calls @ calls')
                     | ((status, body, hdr, None), calls') \<Rightarrow>
                         (writeProxyResponse status hdr body, calls @ calls'))))"

definition handleCreateCodespace ::
  "'j env \<Rightarrow> http_request \<Rightarrow> (panic + http_response) \<times> upstream_request list" where
  "handleCreateCodespace e r =
     (case extractToken r of
        Inl p \<Rightarrow> (Inl p, [])
      | Inr token \<Rightarrow>
          if token = [] then (Inr (http_Error ''missing Authorization token'' 401), [])
          else (case ensureScopes e token [''codespaces''] of
                  (Some err, calls) \<Rightarrow>
                    if isInsufficientScope err
                    then (Inr (http_Error ''insufficient token scopes: requires codespaces'' 403), calls)
                    else (Inr (http_Error ''failed to validate token scopes'' 500), calls)
                | (None, calls) \<Rightarrow>
                    (case Body r of
                       Inl err \<Rightarrow> (Inr (http_Error ''invalid request body'' 400), calls)
                     | Inr bs \<Rightarrow>
                         (case (if length bs > 0 then Unmarshal e bs else Inr None) of
                            Inl err \<Rightarrow> (Inr (http_Error ''invalid json body'' 400), calls)
                          | Inr body \<Rightarrow>
                              (case CreateCodespace e token body of
                                 ((status, respBody, hdr, Some err), calls') \<Rightarrow>
                                   (Inr (http_Error ''failed to call GitHub'' 502), calls @ calls')
                               | ((status, respBody, hdr, None), calls') \<Rightarrow>
                                   (writeProxyResponse status hdr respBody, calls @ calls'))))))"

definition handleStartCodespace ::
  "'j env \<Rightarrow> http_request \<Rightarrow> string \<Rightarrow> (panic + http_response) \<times> upstream_request list" where
  "handleStartCodespace e r name =
     (case extractToken r of
        Inl p \<Rightarrow> (Inl p, [])
      | Inr token \<Rightarrow>
          if token = [] then (Inr (http_Error ''missing Authorization token'' 401), [])
          else (case ensureScopes e token [''codespaces''] of
                  (Some err, calls) \<Rightarrow>
                    if isInsufficientScope err
                    then (Inr (http_Error ''insufficient token scopes: requires codespaces'' 403), calls)
                    else (Inr (http_Error ''failed to validate token scopes'' 500), calls)
                | (None, calls) \<Rightarrow>
                    (case StartCodespace e token name of
                       ((status, body, hdr, Some err), calls') \<Rightarrow>
                         (Inr (http_Error ''failed to call GitHub'' 502), calls @ calls')
                     | ((status, body, hdr, None), calls') \<Rightarrow>
                         (writeProxyResponse status hdr body, calls @ calls'))))"

definition handleStopCodespace ::
  "'j env \<Rightarrow> http_request \<Rightarrow> string \<Rightarrow> (panic + http_response) \<times> upstream_request list" where
  "handleStopCodespace e r name =
     (case extractToken r of
        Inl p \<Rightarrow> (Inl p, [])
      | Inr token \<Rightarrow>
          if token = [] then (Inr (http_Error ''missing Authorization token'' 401), [])
          else (case ensureScopes e token [''codespaces''] of
                  (Some err, calls) \<Rightarrow>
                    if isInsufficientScope err
                    then (Inr (http_Error ''insufficient token scopes: requires codespaces'' 403), calls)
                    else (Inr (http_Error ''failed to validate token scopes'' 500), calls)
                | (None, calls) \<Rightarrow>
                    (case StopCodespace e token name of
                       ((status, body, hdr, Some err), calls') \<Rightarrow>
                         (Inr (http_Error ''failed to call GitHub'' 502), calls @ calls')
                     | ((status, body, hdr, None), calls') \<Rightarrow>
                         (writeProxyResponse status hdr body, calls @ calls'))))"

definition handleDeleteCodespace ::
  "'j env \<Rightarrow> http_request \<Rightarrow> string \<Rightarrow> (panic + http_response) \<times> upstream_request list" where
  "handleDeleteCodespace e r name =
     (case extractToken r of
        Inl p \<Rightarrow> (Inl p, [])
      | Inr token \<Rightarrow>
          if token = [] then (Inr (http_Error ''missing Authorization token'' 401), [])
          else (case ensureScopes e token [''codespaces''] of
                  (Some err, calls) \<Rightarrow>
                    if isInsufficientScope err
                    then (Inr (http_Error ''insufficient token scopes: requires codespaces'' 403), calls)
                    else (Inr (http_Error ''failed to validate token scopes'' 500), calls)
                | (None, calls) \<Rightarrow>
                    (case DeleteCodespace e token name of
                       ((status, body, hdr, Some err), calls') \<Rightarrow>
                         (Inr (http_Error ''failed to call GitHub'' 502), calls @ calls')
                     | ((status, body, hdr, None), calls') \<Rightarrow>
                         (writeProxyResponse status hdr body, calls @ calls'))))"

section \<open>The router (\<open>RegisterCodespacesRoutes\<close>)\<close>

text \<open>
  The two functions that \<open>RegisterCodespacesRoutes\<close> registers, for the patterns
  \<open>/api/codespaces\<close> and \<open>/api/codespaces/\<close>.  Each is split in two: the choice that
  the function makes from the method and the path (\<open>collectionRoute\<close>, \<open>itemRoute\<close>),
  and the call of the handler chosen (\<open>dispatch\<close>).
\<close>

datatype action =
    List
  | Create
  | Get string
  | Delete string
  | Start string
  | Stop string

datatype resolution = Dispatch action | Reject string int

definition collectionRoute :: "string \<Rightarrow> resolution" where
  "collectionRoute method =
     (if method = ''GET'' then Dispatch List
      else if method = ''POST'' then Dispatch Create
      else Reject ''method not allowed'' 405)"

definition itemRoute :: "string \<Rightarrow> string \<Rightarrow> resolution" where
  "itemRoute method path =
     (let rest = TrimPrefix path ''/api/codespaces/''
      in if rest = [] then Reject ''missing codespace name'' 400
         else if HasSuffix rest ''/start'' \<and> method = ''POST''
              then Dispatch (Start (TrimSuffix rest ''/start''))
         else if HasSuffix rest ''/stop'' \<and> method = ''POST''
              then Dispatch (Stop (TrimSuffix rest ''/stop''))
         else if method = ''GET'' then Dispatch (Get rest)
         else if method = ''DELETE'' then Dispatch (Delete rest)
         else Reject ''method not allowed'' 405)"

fun dispatch ::
  "'j env \<Rightarrow> http_request \<Rightarrow> resolution \<Rightarrow> (panic + http_response) \<times> upstream_request list" where
  "dispatch e r (Dispatch List) = handleListCodespaces e r"
| "dispatch e r (Dispatch Create) = handleCreateCodespace e r"
| "dispatch e r (Dispatch (Get name)) = handleGetCodespace e r name"
| "dispatch e r (Dispatch (Delete name)) = handleDeleteCodespace e r name"
| "dispatch e r (Dispatch (Start name)) = handleStartCodespace e r name"
| "dispatch e r (Dispatch (Stop name)) = handleStopCodespace e r name"
| "dispatch e r (Reject msg code) = (Inr (http_Error msg code), [])"


definition codespacesItem ::
  "'j env \<Rightarrow> http_request \<Rightarrow> (panic + http_response) \<times> upstream_request list" where
  "codespacesItem e r = dispatch e r (itemRoute (Method r) (Path r))"

section \<open>Notions used to state the properties\<close>

text \<open>The bytes that start the UTF-8 encoding of some white space rune.\<close>

definition spaceLead :: "char \<Rightarrow> bool" where
  "spaceLead c = ((of_char c :: nat) \<in> {9, 10, 11, 12, 13, 32, 194, 225, 226, 227})"

text \<open>The header value that \<open>extractToken\<close> works on: \<open>Authorization\<close>, else \<open>X-Github-Token\<close>.\<close>

definition authValue :: "http_request \<Rightarrow> string" where
  "authValue r =
     (if header_Get (Header r) ''Authorization'' = [] then header_Get (Header r) ''X-Github-Token''
      else header_Get (Header r) ''Authorization'')"

text \<open>The header set that \<open>newRequest\<close> builds for a request without a body.\<close>

definition plainHeader :: "string \<Rightarrow> header" where
  "plainHeader token =
     (let h1 = header_Set (header_Set Map.empty ''Accept'' ''application/vnd.github+json;apiVersion=2022-11-28'')
                 ''User-Agent'' ''github-mcp-server/codespaces-client''
      in if token \<noteq> [] then header_Set h1 ''Authorization'' (''token '' @ token) else h1)"

text \<open>The scope fetch: the request that \<open>GetTokenScopes\<close> sends, a GET of the API root.\<close>

definition scopeRequest :: "string \<Rightarrow> upstream_request" where
  "scopeRequest token =
     \<lparr>reqMethod = ''GET'', reqPath = ''/'', reqHeader = plainHeader token, reqBody = None\<rparr>"

text \<open>
  The body that the create handler passes on: the inbound body read and, when it is not
  empty, parsed.
\<close>

definition createBody :: "'j env \<Rightarrow> http_request \<Rightarrow> string + 'j option" where
  "createBody e r =
     (case Body r of
        Inl err \<Rightarrow> Inl err
      | Inr bs \<Rightarrow> if length bs > 0 then Unmarshal e bs else Inr None)"

text \<open>The client operation of an action, and the request it builds.\<close>

fun actionCall ::
  "'j env \<Rightarrow> string \<Rightarrow> 'j option \<Rightarrow> action \<Rightarrow>
   (int \<times> string \<times> header \<times> go_error option) \<times> upstream_request list" where
  "actionCall e token body List = ListCodespaces e token"
| "actionCall e token body Create = CreateCodespace e token body"
| "actionCall e token body (Get name) = GetCodespace e token name"
| "actionCall e token body (Delete name) = DeleteCodespace e token name"
| "actionCall e token body (Start name) = StartCodespace e token name"
| "actionCall e token body (Stop name) = StopCodespace e token name"

fun actionRequest :: "'j env \<Rightarrow> string \<Rightarrow> 'j option \<Rightarrow> action \<Rightarrow> go_error + upstream_request" where
  "actionRequest e token body List = newRequest e ''GET'' ''/user/codespaces'' token None"
| "actionRequest e token body Create = newRequest e ''POST'' ''/user/codespaces'' token body"
| "actionRequest e token body (Get name) =
     newRequest e ''GET'' (''/user/codespaces/'' @ PathEscape name) token None"
| "actionRequest e token body (Delete name) =
     newRequest e ''DELETE'' (''/user/codespaces/'' @ PathEscape name) token None"
| "actionRequest e token body (Start name) =
     newRequest e ''POST'' (''/user/codespaces/'' @ PathEscape name @ ''/start'') token None"
| "actionRequest e token body (Stop name) =
     newRequest e ''POST'' (''/user/codespaces/'' @ PathEscape name @ ''/stop'') token None"

text \<open>
  Concrete inputs.  \<open>bearerRequest\<close> carries the header \<open>Authorization: Bearer X\<close> and the
  body \<open>{not json\<close>; \<open>anonymousRequest\<close> has no header at all.  In \<open>stubEnv root answer\<close>
  the upstream answers the scope fetch (the path \<open>/\<close>) with \<open>root\<close> and any other request
  with \<open>answer\<close>, each a transport failure or a response; the JSON functions reject the
  text \<open>{not json\<close> and accept everything else as the value \<open>()\<close>.  \<open>granting scopes\<close> is
  the response 200 with the scope header \<open>scopes\<close>, \<open>okEmpty\<close> the response 200 with no
  header and no body, \<open>notFound\<close> the response 404 with a JSON message and no content
  type, \<open>badStatus\<close> a response with the status 99 (the status line \<open>HTTP/1.1 099\<close>).
\<close>

definition bearerRequest :: "string \<Rightarrow> string \<Rightarrow> http_request" where
  "bearerRequest method path =
     \<lparr>Method = method, Path = path, Header = [''Authorization'' \<mapsto> [''Bearer X'']],
      Body = Inr ''{not json''\<rparr>"

definition anonymousRequest :: "string \<Rightarrow> string \<Rightarrow> http_request" where
  "anonymousRequest method path =
     \<lparr>Method = method, Path = path, Header = Map.empty, Body = Inr []\<rparr>"

definition stubEnv :: "string + upstream_response \<Rightarrow> string + upstream_response \<Rightarrow> unit env" where
  "stubEnv root answer =
     \<lparr>Do = (\<lambda>req. if reqPath req = ''/'' then root else answer),
      Unmarshal = (\<lambda>bs. if bs = ''{not json'' then Inl ''invalid character''
                         else Inr (Some ())),
      Marshal = (\<lambda>_. Inr ''{}''),
      unicodeToLower = (\<lambda>s. s)\<rparr>"

definition granting :: "string \<Rightarrow> upstream_response" where
  "granting scopes =
     \<lparr>StatusCode = 200, UpHeader = [''X-Oauth-Scopes'' \<mapsto> [scopes]], UpBody = Inr []\<rparr>"

definition okEmpty :: upstream_response where
  "okEmpty = \<lparr>StatusCode = 200, UpHeader = Map.empty, UpBody = Inr []\<rparr>"


definition notFound :: upstream_response where
  "notFound = \<lparr>StatusCode = 404, UpHeader = Map.empty, UpBody = Inr ''{\"message\":\"not found\"}''\<rparr>"

text \<open>
  What every handler does once the scope gate has passed with the upstream calls
  \<open>calls\<close>: the create handler reads and parses the inbound body first; then the
  client operation is called and its result is written.
\<close>

definition afterGate ::
  "'j env \<Rightarrow> http_request \<Rightarrow> string \<Rightarrow> upstream_request list \<Rightarrow> action \<Rightarrow>
   (panic + http_response) \<times> upstream_request list" where
  "afterGate e r token calls a =
     (case (if a = Create then Body r else Inr []) of
        Inl err \<Rightarrow> (Inr (http_Error ''invalid request body'' 400), calls)
      | Inr bs \<Rightarrow>
         (case (if a = Create \<and> length bs > 0 then Unmarshal e bs else Inr None) of
            Inl err \<Rightarrow> (Inr (http_Error ''invalid json body'' 400), calls)
          | Inr body \<Rightarrow>
             (case actionCall e token body a of
                ((status, b, hdr, Some err), calls') \<Rightarrow>
                   (Inr (http_Error ''failed to call GitHub'' 502), calls @ calls')
              | ((status, b, hdr, None), calls') \<Rightarrow>
                   (writeProxyResponse status hdr b, calls @ calls'))))"

text \<open>The request that the get operation sends for the codespace \<open>my-cs\<close> and the token \<open>X\<close>.\<close>

definition getRequest :: upstream_request where
  "getRequest = \<lparr>reqMethod = ''GET'', reqPath = ''/user/codespaces/my-cs'',
                  reqHeader = plainHeader ''X'', reqBody = None\<rparr>"

text \<open>The request that the start operation sends for the empty name and the token \<open>X\<close>.\<close>

definition emptyStartRequest :: upstream_request where
  "emptyStartRequest = \<lparr>reqMethod = ''POST'', reqPath = ''/user/codespaces//start'',
          reqHeader = plainHeader ''X'', reqBody = None\<rparr>"

section \<open>Properties of the library functions\<close>

lemma spaceWidth_no_lead: "\<not> spaceLead c \<Longrightarrow> spaceWidth (c # s) = 0"
  by (cases s; cases "tl s") (auto simp: spaceWidth_def spaceLead_def)

lemma spaceWidth_blank: "spaceWidth (CHR '' '' # s) = 1"
  by (simp add: spaceWidth_def)

lemma chunks_no_lead:
  "\<forall>c\<in>set x. \<not> spaceLead c \<Longrightarrow> chunks (x @ s) = map (\<lambda>c. (False, [c])) x @ chunks s"
  by (induction x) (simp_all add: spaceWidth_no_lead)

lemma fieldsOf_bytes: "fieldsOf cur (map (\<lambda>c. (False, [c])) x @ cs) = fieldsOf (cur @ x) cs"
  by (induction x arbitrary: cur) simp_all

lemma Fields_one: "x \<noteq> [] \<Longrightarrow> \<forall>c\<in>set x. \<not> spaceLead c \<Longrightarrow> Fields x = [x]"
  using chunks_no_lead [of x "[]"] fieldsOf_bytes [of "[]" x "[]"] by (simp add: Fields_def)

lemma Fields_two:
  assumes "a \<noteq> []" "\<forall>c\<in>set a. \<not> spaceLead c" "x \<noteq> []" "\<forall>c\<in>set x. \<not> spaceLead c"
  shows "Fields (a @ '' '' @ x) = [a, x]"
proof -
  have "chunks (a @ '' '' @ x) = map (\<lambda>c. (False, [c])) a @ (True, '' '') # map (\<lambda>c. (False, [c])) x"
    using chunks_no_lead [of a "'' '' @ x"] chunks_no_lead [of x "[]"] assms
    by (simp add: spaceWidth_blank)
  then show ?thesis
    using assms fieldsOf_bytes [of "[]" a "(True, '' '') # map (\<lambda>c. (False, [c])) x"]
      fieldsOf_bytes [of "[]" x "[]"]
    by (simp add: Fields_def)
qed

lemma fieldsOf_nonempty: "f \<in> set (fieldsOf cur cs) \<Longrightarrow> f \<noteq> []"
  by (induction cur cs rule: fieldsOf.induct) (auto split: if_splits)

lemma Fields_nonempty: "f \<in> set (Fields s) \<Longrightarrow> f \<noteq> []"
  by (auto simp: Fields_def dest: fieldsOf_nonempty)

lemma canonical_keys:
  "CanonicalMIMEHeaderKey ''Authorization'' = ''Authorization''"
  "CanonicalMIMEHeaderKey ''X-Github-Token'' = ''X-Github-Token''"
  "CanonicalMIMEHeaderKey ''Content-Type'' = ''Content-Type''"
  "CanonicalMIMEHeaderKey ''X-OAuth-Scopes'' = ''X-Oauth-Scopes''"
  "CanonicalMIMEHeaderKey ''X-Content-Type-Options'' = ''X-Content-Type-Options''"
  "CanonicalMIMEHeaderKey ''Accept'' = ''Accept''"
  "CanonicalMIMEHeaderKey ''User-Agent'' = ''User-Agent''"
  by code_simp+

lemma lower_evals:
  "ToLower u ''codespaces'' = ''codespaces''"
  "ToLower u ''CodeSpaces'' = ''codespaces''"
  "ToLower u '' codespaces '' = '' codespaces ''"
  "ToLower u ''repo'' = ''repo''"
  by code_simp+

lemma trim_evals:
  "TrimSpace ''codespaces'' = ''codespaces''"
  "TrimSpace ''CodeSpaces'' = ''CodeSpaces''"
  "TrimSpace '' CodeSpaces '' = ''CodeSpaces''"
  "TrimSpace '' codespaces '' = ''codespaces''"
  "TrimSpace ''repo'' = ''repo''"
  by code_simp+

lemma escape_evals:
  "PathEscape ''my-cs'' = ''my-cs''"
  "PathEscape [] = []"
  by code_simp+

lemma Split_nonempty: "Split s sep \<noteq> []"
  by (induction s) (auto split: list.splits)

lemma foldl_append_slice_gen:
  "foldl (\<lambda>scopes s. append_slice scopes (f s)) acc xs
     = (if xs = [] then acc else Some (elems acc @ map f xs))"
proof (induction xs arbitrary: acc)
  case Nil
  show ?case by simp
next
  case (Cons x xs)
  show ?case
    by (simp add: Cons.IH [of "append_slice acc (f x)"]) (simp add: append_slice_def elems_def)
qed

lemma foldl_append_slice:
  "xs \<noteq> [] \<Longrightarrow> foldl (\<lambda>scopes s. append_slice scopes (f s)) None xs = Some (map f xs)"
  by (simp add: foldl_append_slice_gen elems_def)

lemma foldl_mark:
  "foldl (\<lambda>m s. m(f s := True)) m0 xs k = (m0 k \<or> k \<in> f ` set xs)"
  by (induction xs arbitrary: m0) auto

lemma HasPrefix_append: "HasPrefix (p @ s) p"
  by (simp add: HasPrefix_def)


lemma HasSuffix_iff: "HasSuffix s x \<longleftrightarrow> (\<exists>n. s = n @ x)"
proof
  assume "HasSuffix s x"
  then have "s = take (length s - length x) s @ x"
    by (metis HasSuffix_def append_take_drop_id)
  then show "\<exists>n. s = n @ x" ..
next
  assume "\<exists>n. s = n @ x"
  then show "HasSuffix s x" by (auto simp: HasSuffix_def)
qed

lemma TrimSuffix_append: "TrimSuffix (n @ x) x = n"
  by (simp add: TrimSuffix_def HasSuffix_def)

lemma start_not_stop: "\<not> (HasSuffix s ''/start'' \<and> HasSuffix s ''/stop'')"
  by (auto simp: HasSuffix_iff append_eq_append_conv2 Cons_eq_append_conv append_eq_Cons_conv)

section \<open>Token extraction\<close>

lemma extractToken_authValue:
  "extractToken r =
     (if authValue r = [] then Inr []
      else if length (Fields (authValue r)) = 1 then Inr (Fields (authValue r) ! 0)
      else if 1 < length (Fields (authValue r)) then Inr (Fields (authValue r) ! 1)
      else Inl (IndexOutOfRange 1 (length (Fields (authValue r)))))"
  by (simp add: extractToken_def authValue_def Let_def)

lemma extractToken_empty_iff: "extractToken r = Inr [] \<longleftrightarrow> authValue r = []"
proof
  assume h: "extractToken r = Inr []"
  show "authValue r = []"
  proof (rule ccontr)
    assume ne: "authValue r \<noteq> []"
    let ?p = "Fields (authValue r)"
    from h ne have "(length ?p = 1 \<and> ?p ! 0 = []) \<or> (1 < length ?p \<and> ?p ! 1 = [])"
      by (auto simp: extractToken_authValue split: if_splits)
    then have "[] \<in> set ?p"
      by (metis nth_mem zero_less_one less_trans)
    then show False using Fields_nonempty by blast
  qed
next
  assume "authValue r = []"
  then show "extractToken r = Inr []" by (simp add: extractToken_authValue)
qed

text \<open>
  C9.  A header value that is one token \<open>x\<close> (the spec's \<open>"X"\<close>) gives the token \<open>x\<close>;
  a header value of two parts, a scheme, a blank and \<open>x\<close> (the spec's \<open>"Bearer X"\<close>),
  gives \<open>x\<close> as well, the second part only; and when the \<open>Authorization\<close> header and the
  fallback \<open>X-Github-Token\<close> header are both empty the token is empty.  A part is any
  non-empty string without a byte that starts a white space rune.
\<close>

theorem extractToken_forms:
  assumes "x \<noteq> []" and "\<forall>c\<in>set x. \<not> spaceLead c"
    and "scheme \<noteq> []" and "\<forall>c\<in>set scheme. \<not> spaceLead c"
  shows "(header_Get (Header r) ''Authorization'' = x \<longrightarrow> extractToken r = Inr x)
       \<and> (header_Get (Header r) ''Authorization'' = scheme @ '' '' @ x \<longrightarrow> extractToken r = Inr x)
       \<and> (header_Get (Header r) ''Authorization'' = [] \<and> header_Get (Header r) ''X-Github-Token'' = []
            \<longrightarrow> extractToken r = Inr [])"
proof (intro conjI impI)
  assume "header_Get (Header r) ''Authorization'' = x"
  then have "authValue r = x" using assms(1) by (simp add: authValue_def)
  then show "extractToken r = Inr x"
    using assms(1,2) by (simp add: extractToken_authValue Fields_one)
next
  assume "header_Get (Header r) ''Authorization'' = scheme @ '' '' @ x"
  then have "authValue r = scheme @ '' '' @ x" by (simp add: authValue_def)
  then show "extractToken r = Inr x"
    using Fields_two [OF assms(3,4,1,2)] by (simp add: extractToken_authValue)
next
  assume "header_Get (Header r) ''Authorization'' = [] \<and> header_Get (Header r) ''X-Github-Token'' = []"
  then have "authValue r = []" by (simp add: authValue_def)
  then show "extractToken r = Inr []" by (simp add: extractToken_authValue)
qed

theorem extractToken_forms_witness:
  "extractToken \<lparr>Method = ''GET'', Path = ''/api/codespaces'',
                 Header = [''Authorization'' \<mapsto> [''X'']], Body = Inr []\<rparr> = Inr ''X''
   \<and> extractToken \<lparr>Method = ''GET'', Path = ''/api/codespaces'',
                   Header = [''Authorization'' \<mapsto> [''Bearer X'']], Body = Inr []\<rparr> = Inr ''X''
   \<and> extractToken \<lparr>Method = ''GET'', Path = ''/api/codespaces'',
                   Header = Map.empty, Body = Inr []\<rparr> = Inr []"
  using extractToken_forms [of "''X''" "''Bearer''"
          "\<lparr>Method = ''GET'', Path = ''/api/codespaces'',
            Header = [''Authorization'' \<mapsto> [''X'']], Body = Inr []\<rparr>"]
        extractToken_forms [of "''X''" "''Bearer''"
          "\<lparr>Method = ''GET'', Path = ''/api/codespaces'',
            Header = [''Authorization'' \<mapsto> [''Bearer X'']], Body = Inr []\<rparr>"]
        extractToken_forms [of "''X''" "''Bearer''"
          "\<lparr>Method = ''GET'', Path = ''/api/codespaces'',
            Header = Map.empty, Body = Inr []\<rparr>"]
  by (simp add: header_Get_def canonical_keys spaceLead_def)

text \<open>
  C10.  When the header value that \<open>extractToken\<close> works on is not empty and holds white
  space only, so that \<open>strings.Fields\<close> returns no field, \<open>extractToken\<close> evaluates
  \<open>parts[1]\<close> on the empty list and panics with an index out of range; whenever there is
  at least one field it returns a token.  The header value \<open>" "\<close> is such an input.
\<close>

theorem extractToken_panics_on_white_space:
  "(authValue r \<noteq> [] \<and> Fields (authValue r) = [] \<longrightarrow> extractToken r = Inl (IndexOutOfRange 1 0))
   \<and> (Fields (authValue r) \<noteq> [] \<longrightarrow> (\<exists>t. extractToken r = Inr t))"
  by (cases "Fields (authValue r)") (auto simp: extractToken_authValue)

theorem extractToken_panics_on_white_space_witness:
  "authValue \<lparr>Method = ''GET'', Path = ''/api/codespaces'',
              Header = [''Authorization'' \<mapsto> ['' '']], Body = Inr []\<rparr> = '' ''
   \<and> Fields '' '' = []
   \<and> extractToken \<lparr>Method = ''GET'', Path = ''/api/codespaces'',
                   Header = [''Authorization'' \<mapsto> ['' '']], Body = Inr []\<rparr>
       = Inl (IndexOutOfRange 1 0)
   \<and> Fields ''Bearer'' \<noteq> []
   \<and> (\<exists>t. extractToken \<lparr>Method = ''GET'', Path = ''/api/codespaces'',
                   Header = [''Authorization'' \<mapsto> [''Bearer'']], Body = Inr []\<rparr> = Inr t)"
  using extractToken_panics_on_white_space
          [of "\<lparr>Method = ''GET'', Path = ''/api/codespaces'',
                Header = [''Authorization'' \<mapsto> ['' '']], Body = Inr []\<rparr>"]
        extractToken_panics_on_white_space
          [of "\<lparr>Method = ''GET'', Path = ''/api/codespaces'',
                Header = [''Authorization'' \<mapsto> [''Bearer'']], Body = Inr []\<rparr>"]
  by (simp add: authValue_def header_Get_def canonical_keys Fields_def spaceWidth_def)

section \<open>The upstream client\<close>

lemma newRequest_plain:
  "newRequest e m p token None = Inr \<lparr>reqMethod = m, reqPath = p, reqHeader = plainHeader token, reqBody = None\<rparr>"
  by (simp add: newRequest_def plainHeader_def Let_def)

lemma doRaw_calls: "snd (doRaw e req) = [req]"
  by (simp add: doRaw_def split: sum.splits)

lemma viaDoRaw_eval:
  "viaDoRaw e (Inr req) =
     (case Do e req of
        Inl msg \<Rightarrow> ((0, [], Map.empty, Some (ExternalError msg)), [req])
      | Inr resp \<Rightarrow>
          (case UpBody resp of
             Inl msg \<Rightarrow> ((StatusCode resp, [], UpHeader resp, Some (ExternalError msg)), [req])
           | Inr bs \<Rightarrow> ((StatusCode resp, bs, UpHeader resp, None), [req])))"
  by (simp add: viaDoRaw_def doRaw_def split: sum.splits)

lemma actionCall_viaDoRaw: "actionCall e token body a = viaDoRaw e (actionRequest e token body a)"
  by (cases a)
     (simp_all add: ListCodespaces_def CreateCodespace_def GetCodespace_def DeleteCodespace_def
        StartCodespace_def StopCodespace_def)

lemma actionCall_body: "a \<noteq> Create \<Longrightarrow> actionCall e token body a = actionCall e token None a"
  by (cases a) simp_all

lemma GetTokenScopes_calls: "snd (GetTokenScopes e token) = [scopeRequest token]"
  by (simp add: GetTokenScopes_def newRequest_plain scopeRequest_def doRaw_def Let_def
           split: sum.splits prod.splits option.splits)

lemma GetTokenScopes_eval:
  assumes "Do e (scopeRequest token) = Inr resp"
  shows "GetTokenScopes e token =
     ((case UpBody resp of
         Inl msg \<Rightarrow> (None, Some (ExternalError msg))
       | Inr bs \<Rightarrow>
           if StatusCode resp \<ge> 400 then (None, Some (GithubStatus (StatusCode resp)))
           else if header_Get (UpHeader resp) ''X-OAuth-Scopes'' = [] then (Some [], None)
           else (Some (map TrimSpace (Split (header_Get (UpHeader resp) ''X-OAuth-Scopes'') (CHR '',''))), None)),
      [scopeRequest token])"
  using assms foldl_append_slice [OF Split_nonempty, where f = TrimSpace]
  by (simp add: GetTokenScopes_def newRequest_plain scopeRequest_def doRaw_def Let_def elems_def
           split: sum.splits)

lemma GetTokenScopes_down:
  assumes "Do e (scopeRequest token) = Inl msg"
  shows "GetTokenScopes e token = ((None, Some (ExternalError msg)), [scopeRequest token])"
  using assms
  by (simp add: GetTokenScopes_def newRequest_plain scopeRequest_def doRaw_def)

lemma GetTokenScopes_error_kind:
  "GetTokenScopes e token = ((s, Some err), calls) \<Longrightarrow> \<not> isInsufficientScope err"
  by (auto simp: GetTokenScopes_def newRequest_plain doRaw_def Let_def
           split: sum.splits prod.splits option.splits if_splits)

section \<open>The scope gate\<close>

lemma ensureScopes_calls: "snd (ensureScopes e token required) = [scopeRequest token]"
  using GetTokenScopes_calls [of e token]
  by (auto simp: ensureScopes_def Let_def split: prod.splits option.splits)

lemma ensureScopes_fetch_failure:
  "GetTokenScopes e token = ((s, Some err), calls) \<Longrightarrow> ensureScopes e token required = (Some err, calls)"
  by (simp add: ensureScopes_def)

lemma haveOf_iff:
  "haveOf uni scopes k \<longleftrightarrow> (\<exists>s\<in>set (elems scopes). k = ToLower uni (TrimSpace s))"
  by (auto simp: haveOf_def foldl_mark)

lemma checkRequired_iff:
  "checkRequired uni have err required
     = (if \<forall>r\<in>set required. have (ToLower uni r) then None else Some err)"
  by (induction required) auto

section \<open>The concrete requests and upstreams\<close>

lemma stub_Do [simp]:
  "Do (stubEnv root answer) (scopeRequest t) = root"
  "reqPath q \<noteq> ''/'' \<Longrightarrow> Do (stubEnv root answer) q = answer"
  by (simp_all add: stubEnv_def scopeRequest_def)

lemma bearer_token: "extractToken (bearerRequest m p) = Inr ''X''"
  by (simp add: bearerRequest_def extractToken_def header_Get_def canonical_keys Fields_def
        spaceWidth_def)

lemma bearer_body: "Body (bearerRequest m p) = Inr ''{not json''"
  by (simp add: bearerRequest_def)

lemma bearer_fields:
  "Method (bearerRequest m p) = m"
  "Path (bearerRequest m p) = p"
  by (simp_all add: bearerRequest_def)

lemma stub_unmarshal: "Unmarshal (stubEnv root answer) ''{not json'' = Inl ''invalid character''"
  by (simp add: stubEnv_def)

lemma granting_scopes:
  "sc \<noteq> [] \<Longrightarrow> GetTokenScopes (stubEnv (Inr (granting sc)) answer) t
     = ((Some (map TrimSpace (Split sc (CHR '',''))), None), [scopeRequest t])"
  using GetTokenScopes_eval [of "stubEnv (Inr (granting sc)) answer" t "granting sc"]
  by (simp add: granting_def header_Get_def canonical_keys)

lemma stub_gate_ok:
  "ensureScopes (stubEnv (Inr (granting ''codespaces'')) answer) t [''codespaces'']
     = (None, [scopeRequest t])"
  using granting_scopes [of "''codespaces''" answer t]
  by (simp add: ensureScopes_def checkRequired_iff haveOf_iff elems_def lower_evals trim_evals
        stubEnv_def)

lemma stub_gate_insufficient:
  "ensureScopes (stubEnv (Inr (granting ''repo'')) answer) t [''codespaces'']
     = (Some (InsufficientScopeError [''codespaces''] (Some [''repo''])), [scopeRequest t])"
  using granting_scopes [of "''repo''" answer t]
  by (simp add: ensureScopes_def checkRequired_iff haveOf_iff elems_def lower_evals trim_evals
        stubEnv_def)

lemma stub_fetch_down:
  "GetTokenScopes (stubEnv (Inl msg) answer) t = ((None, Some (ExternalError msg)), [scopeRequest t])"
  by (simp add: GetTokenScopes_down)

lemma stub_get_request:
  "actionRequest e ''X'' body (Get ''my-cs'') = Inr getRequest"
  by (simp add: newRequest_plain escape_evals getRequest_def del: PathEscape.simps)

lemma stub_get_call:
  "actionCall (stubEnv root answer) ''X'' body (Get ''my-cs'')
     = (case answer of
          Inl msg \<Rightarrow> ((0, [], Map.empty, Some (ExternalError msg)), [getRequest])
        | Inr resp \<Rightarrow>
            (case UpBody resp of
               Inl msg \<Rightarrow> ((StatusCode resp, [], UpHeader resp, Some (ExternalError msg)), [getRequest])
             | Inr bs \<Rightarrow> ((StatusCode resp, bs, UpHeader resp, None), [getRequest])))"
proof -
  have "Do (stubEnv root answer) getRequest = answer"
    by (simp add: getRequest_def stubEnv_def)
  then show ?thesis
    by (simp add: actionCall_viaDoRaw stub_get_request viaDoRaw_eval del: actionRequest.simps)
qed

section \<open>The scopes of a token\<close>

text \<open>
  C8.  \<open>GetTokenScopes\<close> returns an error and no list for every upstream response with a
  status of 400 or more.  For a response below 400 whose body can be read it returns
  the empty list, which is not \<open>nil\<close>, when the header \<open>X-OAuth-Scopes\<close> is absent (or
  empty), and otherwise the pieces of the header value between commas, each with the
  white space around it trimmed.
\<close>

theorem GetTokenScopes_result:
  assumes "Do e (scopeRequest token) = Inr resp"
  shows "(StatusCode resp \<ge> 400 \<longrightarrow> (\<exists>err. fst (GetTokenScopes e token) = (None, Some err)))
       \<and> (StatusCode resp < 400 \<and> UpBody resp = Inr bs
            \<and> header_Get (UpHeader resp) ''X-OAuth-Scopes'' = []
            \<longrightarrow> fst (GetTokenScopes e token) = (Some [], None))
       \<and> (StatusCode resp < 400 \<and> UpBody resp = Inr bs
            \<and> header_Get (UpHeader resp) ''X-OAuth-Scopes'' \<noteq> []
            \<longrightarrow> fst (GetTokenScopes e token)
                  = (Some (map TrimSpace (Split (header_Get (UpHeader resp) ''X-OAuth-Scopes'') (CHR '',''))),
                     None))"
  by (auto simp: GetTokenScopes_eval [OF assms] split: sum.splits)

theorem GetTokenScopes_result_witness:
  "Do (stubEnv (Inr notFound) (Inr notFound)) (scopeRequest ''X'') = Inr notFound
   \<and> StatusCode notFound \<ge> 400
   \<and> (\<exists>err. fst (GetTokenScopes (stubEnv (Inr notFound) (Inr notFound)) ''X'') = (None, Some err))
   \<and> StatusCode okEmpty < 400 \<and> header_Get (UpHeader okEmpty) ''X-OAuth-Scopes'' = []
   \<and> fst (GetTokenScopes (stubEnv (Inr okEmpty) (Inr notFound)) ''X'') = (Some [], None)
   \<and> header_Get (UpHeader (granting ''repo, codespaces ,user'')) ''X-OAuth-Scopes'' = ''repo, codespaces ,user''
   \<and> fst (GetTokenScopes (stubEnv (Inr (granting ''repo, codespaces ,user'')) (Inr notFound)) ''X'')
       = (Some [''repo'', ''codespaces'', ''user''], None)"
  using GetTokenScopes_result [of "stubEnv (Inr notFound) (Inr notFound)" "''X''" notFound]
        GetTokenScopes_result [of "stubEnv (Inr okEmpty) (Inr notFound)" "''X''" okEmpty "[]"]
        GetTokenScopes_result [of "stubEnv (Inr (granting ''repo, codespaces ,user'')) (Inr notFound)"
           "''X''" "granting ''repo, codespaces ,user''" "[]"]
  by (simp add: notFound_def okEmpty_def granting_def header_Get_def canonical_keys
        TrimSpace_def spaceWidth_def)

section \<open>The comparison of the scope gate\<close>

text \<open>
  C4, in the form that holds.  The scope gate passes exactly when every required scope, lower-cased,
  equals some granted scope, trimmed and lower-cased: the comparison ignores case on
  both sides and white space around the granted scopes only.  Otherwise the gate returns
  an \<open>InsufficientScopeError\<close> that carries the required and the granted scopes.  So the
  granted scope \<open>" CodeSpaces "\<close> satisfies the required scope \<open>"codespaces"\<close>.
\<close>

theorem scope_gate_comparison:
  "checkRequired u (haveOf u scopes) (InsufficientScopeError required scopes) required
     = (if \<forall>r\<in>set required. \<exists>s\<in>set (elems scopes). ToLower u r = ToLower u (TrimSpace s)
        then None else Some (InsufficientScopeError required scopes))
   \<and> (GetTokenScopes e token = ((scopes, None), calls) \<longrightarrow>
        ensureScopes e token required
          = ((if \<forall>r\<in>set required. \<exists>s\<in>set (elems scopes).
                    ToLower (unicodeToLower e) r = ToLower (unicodeToLower e) (TrimSpace s)
              then None else Some (InsufficientScopeError required scopes)), calls))"
  by (simp add: ensureScopes_def checkRequired_iff haveOf_iff)

theorem scope_gate_comparison_witness:
  "checkRequired (\<lambda>s. s) (haveOf (\<lambda>s. s) (Some ['' CodeSpaces '']))
      (InsufficientScopeError [''codespaces''] (Some ['' CodeSpaces ''])) [''codespaces''] = None
   \<and> checkRequired (\<lambda>s. s) (haveOf (\<lambda>s. s) (Some [''repo'']))
      (InsufficientScopeError [''codespaces''] (Some [''repo''])) [''codespaces'']
       = Some (InsufficientScopeError [''codespaces''] (Some [''repo'']))
   \<and> GetTokenScopes (stubEnv (Inr (granting '' CodeSpaces '')) (Inr notFound)) ''X''
       = ((Some [''CodeSpaces''], None), [scopeRequest ''X''])
   \<and> ensureScopes (stubEnv (Inr (granting '' CodeSpaces '')) (Inr notFound)) ''X'' [''codespaces'']
       = (None, [scopeRequest ''X''])"
  using scope_gate_comparison [of "\<lambda>s. s" "Some ['' CodeSpaces '']" "[''codespaces'']"]
        scope_gate_comparison [of "\<lambda>s. s" "Some [''repo'']" "[''codespaces'']"]
        scope_gate_comparison [of _ "Some [''CodeSpaces'']" "[''codespaces'']"
           "stubEnv (Inr (granting '' CodeSpaces '')) (Inr notFound)" "''X''" "[scopeRequest ''X'']"]
        granting_scopes [of "'' CodeSpaces ''" "Inr notFound" "''X''"]
  by (simp add: haveOf_iff elems_def lower_evals trim_evals stubEnv_def)

text \<open>
  C4 fails as it is stated: the required side is not trimmed.  The required scope
  \<open>" codespaces "\<close> and the granted scope \<open>"codespaces"\<close> are equal once trimmed and
  lower-cased, and still the gate answers with an \<open>InsufficientScopeError\<close>.
\<close>

theorem required_scope_not_trimmed:
  "ToLower (\<lambda>s. s) (TrimSpace '' codespaces '') = ToLower (\<lambda>s. s) (TrimSpace ''codespaces'')
   \<and> ensureScopes (stubEnv (Inr (granting ''codespaces'')) (Inr notFound)) ''X'' ['' codespaces '']
       = (Some (InsufficientScopeError ['' codespaces ''] (Some [''codespaces''])), [scopeRequest ''X''])"
  using granting_scopes [of "''codespaces''" "Inr notFound" "''X''"]
  by (simp add: ensureScopes_def checkRequired_iff haveOf_iff elems_def lower_evals trim_evals
        stubEnv_def)

section \<open>The handlers, for every action\<close>

lemma afterGate_call:
  assumes "a = Create \<longrightarrow> createBody e r = Inr body"
  shows "afterGate e r token calls a =
     (case actionCall e token body a of
        ((status, b, hdr, Some err), calls') \<Rightarrow>
           (Inr (http_Error ''failed to call GitHub'' 502), calls @ calls')
      | ((status, b, hdr, None), calls') \<Rightarrow>
           (writeProxyResponse status hdr b, calls @ calls'))"
proof (cases "a = Create")
  case True
  with assms show ?thesis
    by (auto simp: afterGate_def createBody_def split: sum.splits if_splits)
next
  case False
  then show ?thesis
    using actionCall_body [OF False, of e token body] by (simp add: afterGate_def)
qed

lemma dispatch_unfold:
  "dispatch e r (Dispatch a) =
     (case extractToken r of
        Inl p \<Rightarrow> (Inl p, [])
      | Inr token \<Rightarrow>
          if token = [] then (Inr (http_Error ''missing Authorization token'' 401), [])
          else (case ensureScopes e token [''codespaces''] of
                  (Some err, calls) \<Rightarrow>
                    if isInsufficientScope err
                    then (Inr (http_Error ''insufficient token scopes: requires codespaces'' 403), calls)
                    else (Inr (http_Error ''failed to validate token scopes'' 500), calls)
                | (None, calls) \<Rightarrow> afterGate e r token calls a))"
  by (cases a)
     (simp_all add: handleListCodespaces_def handleCreateCodespace_def handleGetCodespace_def
        handleDeleteCodespace_def handleStartCodespace_def handleStopCodespace_def afterGate_def
        split: sum.splits prod.splits option.splits)

text \<open>
  C1.  When the \<open>Authorization\<close> header and the \<open>X-Github-Token\<close> header of a request are
  both empty, each of the six handlers (list, create, get, delete, start, stop) writes
  the status 401 and sends nothing upstream: neither the scope fetch nor the action
  call.
\<close>

theorem missing_token_unauthenticated:
  assumes "header_Get (Header r) ''Authorization'' = []"
    and "header_Get (Header r) ''X-Github-Token'' = []"
  shows "handleListCodespaces e r = (Inr (http_Error ''missing Authorization token'' 401), [])
       \<and> handleCreateCodespace e r = (Inr (http_Error ''missing Authorization token'' 401), [])
       \<and> handleGetCodespace e r name = (Inr (http_Error ''missing Authorization token'' 401), [])
       \<and> handleDeleteCodespace e r name = (Inr (http_Error ''missing Authorization token'' 401), [])
       \<and> handleStartCodespace e r name = (Inr (http_Error ''missing Authorization token'' 401), [])
       \<and> handleStopCodespace e r name = (Inr (http_Error ''missing Authorization token'' 401), [])
       \<and> Code (http_Error ''missing Authorization token'' 401) = 401"
proof -
  have "extractToken r = Inr []" using assms by (simp add: extractToken_def)
  then show ?thesis
    by (simp add: handleListCodespaces_def handleCreateCodespace_def handleGetCodespace_def
        handleDeleteCodespace_def handleStartCodespace_def handleStopCodespace_def http_Error_def)
qed

theorem missing_token_unauthenticated_witness:
  "header_Get (Header (anonymousRequest ''GET'' ''/api/codespaces'')) ''Authorization'' = []
   \<and> header_Get (Header (anonymousRequest ''GET'' ''/api/codespaces'')) ''X-Github-Token'' = []
   \<and> handleListCodespaces (stubEnv (Inr (granting ''codespaces'')) (Inr notFound))
        (anonymousRequest ''GET'' ''/api/codespaces'')
       = (Inr (http_Error ''missing Authorization token'' 401), [])
   \<and> handleCreateCodespace (stubEnv (Inr (granting ''codespaces'')) (Inr notFound))
        (anonymousRequest ''GET'' ''/api/codespaces'')
       = (Inr (http_Error ''missing Authorization token'' 401), [])
   \<and> handleGetCodespace (stubEnv (Inr (granting ''codespaces'')) (Inr notFound))
        (anonymousRequest ''GET'' ''/api/codespaces'') ''my-cs''
       = (Inr (http_Error ''missing Authorization token'' 401), [])
   \<and> handleDeleteCodespace (stubEnv (Inr (granting ''codespaces'')) (Inr notFound))
        (anonymousRequest ''GET'' ''/api/codespaces'') ''my-cs''
       = (Inr (http_Error ''missing Authorization token'' 401), [])
   \<and> handleStartCodespace (stubEnv (Inr (granting ''codespaces'')) (Inr notFound))
        (anonymousRequest ''GET'' ''/api/codespaces'') ''my-cs''
       = (Inr (http_Error ''missing Authorization token'' 401), [])
   \<and> handleStopCodespace (stubEnv (Inr (granting ''codespaces'')) (Inr notFound))
        (anonymousRequest ''GET'' ''/api/codespaces'') ''my-cs''
       = (Inr (http_Error ''missing Authorization token'' 401), [])"
  using missing_token_unauthenticated
          [of "anonymousRequest ''GET'' ''/api/codespaces''"
              "stubEnv (Inr (granting ''codespaces'')) (Inr notFound)" "''my-cs''"]
  by (simp add: anonymousRequest_def header_Get_def)

text \<open>
  C5.  For every action, with a token present: an \<open>InsufficientScopeError\<close> from the scope
  gate gives 403 with the message that names the required scope \<open>codespaces\<close>; any
  other error of the scope gate, and so every failure of the scope fetch, gives 500 with
  a generic message; an error of the action call itself gives 502 with a generic message.
\<close>

theorem failure_kinds_distinct:
  assumes "extractToken r = Inr token" and "token \<noteq> []"
  shows "(ensureScopes e token [''codespaces''] = (Some err, calls) \<and> isInsufficientScope err
            \<longrightarrow> dispatch e r (Dispatch a)
                  = (Inr (http_Error ''insufficient token scopes: requires codespaces'' 403), calls))
       \<and> (ensureScopes e token [''codespaces''] = (Some err, calls) \<and> \<not> isInsufficientScope err
            \<longrightarrow> dispatch e r (Dispatch a)
                  = (Inr (http_Error ''failed to validate token scopes'' 500), calls))
       \<and> (GetTokenScopes e token = ((s, Some err), calls)
            \<longrightarrow> dispatch e r (Dispatch a)
                  = (Inr (http_Error ''failed to validate token scopes'' 500), calls))
       \<and> (ensureScopes e token [''codespaces''] = (None, calls)
            \<and> (a = Create \<longrightarrow> createBody e r = Inr body)
            \<and> actionCall e token body a = ((status, b, hdr, Some err), calls')
            \<longrightarrow> dispatch e r (Dispatch a)
                  = (Inr (http_Error ''failed to call GitHub'' 502), calls @ calls'))"
proof (intro conjI impI)
  assume "ensureScopes e token [''codespaces''] = (Some err, calls) \<and> isInsufficientScope err"
  then show "dispatch e r (Dispatch a)
      = (Inr (http_Error ''insufficient token scopes: requires codespaces'' 403), calls)"
    using assms by (simp add: dispatch_unfold)
next
  assume "ensureScopes e token [''codespaces''] = (Some err, calls) \<and> \<not> isInsufficientScope err"
  then show "dispatch e r (Dispatch a) = (Inr (http_Error ''failed to validate token scopes'' 500), calls)"
    using assms by (simp add: dispatch_unfold)
next
  assume h: "GetTokenScopes e token = ((s, Some err), calls)"
  show "dispatch e r (Dispatch a) = (Inr (http_Error ''failed to validate token scopes'' 500), calls)"
    using assms GetTokenScopes_error_kind [OF h] ensureScopes_fetch_failure [OF h]
    by (simp add: dispatch_unfold)
next
  assume h: "ensureScopes e token [''codespaces''] = (None, calls)
            \<and> (a = Create \<longrightarrow> createBody e r = Inr body)
            \<and> actionCall e token body a = ((status, b, hdr, Some err), calls')"
  then have "afterGate e r token calls a = (Inr (http_Error ''failed to call GitHub'' 502), calls @ calls')"
    using afterGate_call [of a e r body token calls] by simp
  then show "dispatch e r (Dispatch a) = (Inr (http_Error ''failed to call GitHub'' 502), calls @ calls')"
    using assms h by (simp add: dispatch_unfold)
qed

theorem failure_kinds_distinct_witness:
  "extractToken (bearerRequest ''GET'' ''/api/codespaces/my-cs'') = Inr ''X''
   \<and> dispatch (stubEnv (Inr (granting ''repo'')) (Inr notFound))
        (bearerRequest ''GET'' ''/api/codespaces/my-cs'') (Dispatch (Get ''my-cs''))
       = (Inr (http_Error ''insufficient token scopes: requires codespaces'' 403), [scopeRequest ''X''])
   \<and> dispatch (stubEnv (Inl ''connection refused'') (Inr notFound))
        (bearerRequest ''GET'' ''/api/codespaces/my-cs'') (Dispatch (Get ''my-cs''))
       = (Inr (http_Error ''failed to validate token scopes'' 500), [scopeRequest ''X''])
   \<and> dispatch (stubEnv (Inr (granting ''codespaces'')) (Inl ''connection refused''))
        (bearerRequest ''GET'' ''/api/codespaces/my-cs'') (Dispatch (Get ''my-cs''))
       = (Inr (http_Error ''failed to call GitHub'' 502), [scopeRequest ''X'', getRequest])"
  using failure_kinds_distinct
          [where r = "bearerRequest ''GET'' ''/api/codespaces/my-cs''" and token = "''X''"
             and e = "stubEnv (Inr (granting ''repo'')) (Inr notFound)"
             and err = "InsufficientScopeError [''codespaces''] (Some [''repo''])"
             and calls = "[scopeRequest ''X'']" and a = "Get ''my-cs''", OF bearer_token]
        failure_kinds_distinct
          [where r = "bearerRequest ''GET'' ''/api/codespaces/my-cs''" and token = "''X''"
             and e = "stubEnv (Inl ''connection refused'') (Inr notFound)"
             and err = "ExternalError ''connection refused''"
             and calls = "[scopeRequest ''X'']" and a = "Get ''my-cs''" and s = None, OF bearer_token]
        failure_kinds_distinct
          [where r = "bearerRequest ''GET'' ''/api/codespaces/my-cs''" and token = "''X''"
             and e = "stubEnv (Inr (granting ''codespaces'')) (Inl ''connection refused'')"
             and err = "ExternalError ''connection refused''"
             and calls = "[scopeRequest ''X'']" and a = "Get ''my-cs''" and body = None
             and status = 0 and b = "[]" and hdr = Map.empty and calls' = "[getRequest]",
           OF bearer_token]
  by (simp add: bearer_token stub_gate_ok stub_gate_insufficient stub_fetch_down stub_get_call
        ensureScopes_fetch_failure del: actionCall.simps dispatch.simps)

lemma writeProxyResponse_in_range:
  "100 \<le> status \<Longrightarrow> status \<le> 999 \<Longrightarrow>
   writeProxyResponse status hdr body
     = Inr \<lparr>Code = status,
            RespHeader = [''Content-Type'' \<mapsto>
                            [if header_Get hdr ''Content-Type'' = [] then ''application/json''
                             else header_Get hdr ''Content-Type'']],
            Written = body\<rparr>"
  by (simp add: writeProxyResponse_def checkWriteHeaderCode_def header_Set_def canonical_keys)

lemma writeProxyResponse_out_of_range:
  "status < 100 \<or> status > 999 \<Longrightarrow>
   writeProxyResponse status hdr body = Inl (InvalidWriteHeaderCode status)"
  by (auto simp: writeProxyResponse_def checkWriteHeaderCode_def)

lemma dispatch_forward:
  assumes "extractToken r = Inr token" and "token \<noteq> []"
    and "ensureScopes e token [''codespaces''] = (None, calls)"
    and "a = Create \<longrightarrow> createBody e r = Inr body"
    and "actionRequest e token body a = Inr req"
    and "Do e req = Inr resp" and "UpBody resp = Inr bs"
  shows "dispatch e r (Dispatch a)
           = (writeProxyResponse (StatusCode resp) (UpHeader resp) bs, calls @ [req])"
proof -
  have "actionCall e token body a = ((StatusCode resp, bs, UpHeader resp, None), [req])"
    using assms(5-7) by (simp add: actionCall_viaDoRaw viaDoRaw_eval)
  then have "afterGate e r token calls a
      = (writeProxyResponse (StatusCode resp) (UpHeader resp) bs, calls @ [req])"
    using afterGate_call [OF assms(4), of token calls] by simp
  then show ?thesis
    using assms(1-3) by (simp add: dispatch_unfold)
qed





text \<open>
  For a status below 100 or above 999, under the same conditions, the handler panics
  after the upstream calls and writes nothing.
\<close>

lemma upstream_status_rejected:
  assumes "extractToken r = Inr token" and "token \<noteq> []"
    and "ensureScopes e token [''codespaces''] = (None, calls)"
    and "a = Create \<longrightarrow> createBody e r = Inr body"
    and "actionRequest e token body a = Inr req"
    and "Do e req = Inr resp" and "UpBody resp = Inr bs"
    and "StatusCode resp < 100 \<or> StatusCode resp > 999"
  shows "dispatch e r (Dispatch a) = (Inl (InvalidWriteHeaderCode (StatusCode resp)), calls @ [req])"
  using dispatch_forward [OF assms(1-7)] writeProxyResponse_out_of_range [OF assms(8)]
  by simp

section \<open>The create handler and its body\<close>

text \<open>
  C2 fails as it is stated: the create handler extracts the token and runs the scope
  gate before it reads the body.  For a request with a token and the body \<open>{not json\<close>
  the answer is 400, but the scope fetch has gone upstream by then; and when the gate
  refuses the token the answer is 403, not 400.
\<close>

theorem create_bad_json_reaches_upstream:
  "Body (bearerRequest ''POST'' ''/api/codespaces'') = Inr ''{not json''
   \<and> Unmarshal (stubEnv (Inr (granting ''codespaces'')) (Inr okEmpty)) ''{not json''
        = Inl ''invalid character''
   \<and> handleCreateCodespace (stubEnv (Inr (granting ''codespaces'')) (Inr okEmpty))
        (bearerRequest ''POST'' ''/api/codespaces'')
       = (Inr (http_Error ''invalid json body'' 400), [scopeRequest ''X''])
   \<and> handleCreateCodespace (stubEnv (Inr (granting ''repo'')) (Inr okEmpty))
        (bearerRequest ''POST'' ''/api/codespaces'')
       = (Inr (http_Error ''insufficient token scopes: requires codespaces'' 403), [scopeRequest ''X''])"
  by (simp add: handleCreateCodespace_def bearer_token stub_gate_ok stub_gate_insufficient
        bearer_body stub_unmarshal)

text \<open>
  C2, in the form that holds.  For every create request whose body is not empty and is
  not valid JSON: when a token is present and the scope gate passes, the create handler
  answers 400 (\<open>invalid json body\<close>), and the one upstream call made is the scope fetch;
  and in every case the create call never goes upstream, as each upstream call made is
  the \<open>GET /\<close> of the scope fetch.
\<close>

theorem create_bad_json_rejected:
  assumes "Body r = Inr bs" and "bs \<noteq> []" and "Unmarshal e bs = Inl msg"
  shows "(extractToken r = Inr token \<and> token \<noteq> []
            \<and> ensureScopes e token [''codespaces''] = (None, calls)
          \<longrightarrow> handleCreateCodespace e r = (Inr (http_Error ''invalid json body'' 400), calls)
              \<and> calls = [scopeRequest token])
       \<and> (\<forall>q\<in>set (snd (handleCreateCodespace e r)). reqMethod q = ''GET'' \<and> reqPath q = ''/'')"
proof (intro conjI impI)
  assume h: "extractToken r = Inr token \<and> token \<noteq> []
            \<and> ensureScopes e token [''codespaces''] = (None, calls)"
  then show "handleCreateCodespace e r = (Inr (http_Error ''invalid json body'' 400), calls)"
    using assms by (simp add: handleCreateCodespace_def)
  show "calls = [scopeRequest token]"
    using h ensureScopes_calls [of e token "[''codespaces'']"] by simp
next
  show "\<forall>q\<in>set (snd (handleCreateCodespace e r)). reqMethod q = ''GET'' \<and> reqPath q = ''/''"
  proof (cases "extractToken r")
    case (Inl p)
    then show ?thesis by (simp add: handleCreateCodespace_def)
  next
    case (Inr token)
    show ?thesis
    proof (cases "token = []")
      case True
      with Inr show ?thesis by (simp add: handleCreateCodespace_def)
    next
      case False
      obtain res calls where g: "ensureScopes e token [''codespaces''] = (res, calls)"
        by (cases "ensureScopes e token [''codespaces'']")
      then have c: "calls = [scopeRequest token]"
        using ensureScopes_calls [of e token "[''codespaces'']"] by simp
      have "snd (handleCreateCodespace e r) = calls"
        using Inr False g assms
        by (cases res) (simp_all add: handleCreateCodespace_def)
      then show ?thesis using c by (simp add: scopeRequest_def)
    qed
  qed
qed

theorem create_bad_json_rejected_witness:
  "Body (bearerRequest ''POST'' ''/api/codespaces'') = Inr ''{not json''
   \<and> Unmarshal (stubEnv (Inr (granting ''codespaces'')) (Inr okEmpty)) ''{not json''
        = Inl ''invalid character''
   \<and> handleCreateCodespace (stubEnv (Inr (granting ''codespaces'')) (Inr okEmpty))
        (bearerRequest ''POST'' ''/api/codespaces'')
       = (Inr (http_Error ''invalid json body'' 400), [scopeRequest ''X''])
   \<and> map reqMethod (snd (handleCreateCodespace (stubEnv (Inr (granting ''codespaces'')) (Inr okEmpty))
                            (bearerRequest ''POST'' ''/api/codespaces''))) = [''GET'']
   \<and> map reqPath (snd (handleCreateCodespace (stubEnv (Inr (granting ''codespaces'')) (Inr okEmpty))
                          (bearerRequest ''POST'' ''/api/codespaces''))) = [''/'']"
  using create_bad_json_rejected
          [where r = "bearerRequest ''POST'' ''/api/codespaces''" and bs = "''{not json''"
             and e = "stubEnv (Inr (granting ''codespaces'')) (Inr okEmpty)"
             and msg = "''invalid character''" and token = "''X''" and calls = "[scopeRequest ''X'']",
           OF bearer_body _ stub_unmarshal]
  by (simp add: bearer_token stub_gate_ok bearer_body stub_unmarshal)

section \<open>The resolution of method and path\<close>











lemma itemRoute_action:
  assumes "itemRoute m p = Dispatch a"
  shows "TrimPrefix p ''/api/codespaces/'' \<noteq> []
     \<and> ((m = ''GET'' \<and> a = Get (TrimPrefix p ''/api/codespaces/''))
        \<or> (m = ''DELETE'' \<and> a = Delete (TrimPrefix p ''/api/codespaces/''))
        \<or> (m = ''POST'' \<and> (\<exists>name. TrimPrefix p ''/api/codespaces/'' = name @ ''/start'' \<and> a = Start name))
        \<or> (m = ''POST'' \<and> (\<exists>name. TrimPrefix p ''/api/codespaces/'' = name @ ''/stop'' \<and> a = Stop name)))"
  using assms
  by (auto simp: itemRoute_def Let_def HasSuffix_iff TrimSuffix_append split: if_splits)

lemma route_evals:
  "itemRoute ''POST'' ''/api/codespaces/my-cs/start'' = Dispatch (Start ''my-cs'')"
  "itemRoute ''POST'' ''/api/codespaces/my-cs'' = Reject ''method not allowed'' 405"
  "itemRoute ''POST'' ''/api/codespaces//start'' = Dispatch (Start [])"
  "itemRoute ''POST'' ''/api/codespaces//stop'' = Dispatch (Stop [])"
  "itemRoute ''PUT'' ''/api/codespaces/my-cs'' = Reject ''method not allowed'' 405"
  "itemRoute ''GET'' ''/api/codespaces/'' = Reject ''missing codespace name'' 400"
  "collectionRoute ''PUT'' = Reject ''method not allowed'' 405"
  "itemRoute ''GET'' ''/api/codespaces/my-cs'' = Dispatch (Get ''my-cs'')"
  "itemRoute ''DELETE'' ''/api/codespaces/my-cs'' = Dispatch (Delete ''my-cs'')"
  "itemRoute ''POST'' ''/api/codespaces/my-cs/stop'' = Dispatch (Stop ''my-cs'')"
  "TrimPrefix ''/api/codespaces/'' ''/api/codespaces/'' = []"
  "TrimPrefix ''/api/codespaces/my-cs'' ''/api/codespaces/'' = ''my-cs''"
  "HasSuffix ''my-cs'' ''/start'' = False"
  "HasSuffix ''my-cs'' ''/stop'' = False"
  by code_simp+




section \<open>Start and stop\<close>

lemma stub_start_empty:
  "actionCall (stubEnv root (Inr okEmpty)) ''X'' None (Start [])
     = ((200, [], Map.empty, None), [emptyStartRequest])"
proof -
  have "actionRequest (stubEnv root (Inr okEmpty)) ''X'' None (Start []) = Inr emptyStartRequest"
    by (simp add: newRequest_plain emptyStartRequest_def)
  moreover have "Do (stubEnv root (Inr okEmpty)) emptyStartRequest = Inr okEmpty"
    by (simp add: stubEnv_def emptyStartRequest_def)
  ultimately show ?thesis
    by (simp add: actionCall_viaDoRaw viaDoRaw_eval okEmpty_def del: actionRequest.simps)
qed

lemma proxy_ok_empty:
  "writeProxyResponse 200 Map.empty []
     = Inr \<lparr>Code = 200, RespHeader = [''Content-Type'' \<mapsto> [''application/json'']], Written = []\<rparr>"
  using writeProxyResponse_in_range [of 200 Map.empty "[]"] by (simp add: header_Get_def)

lemma afterGate_start_empty:
  "afterGate (stubEnv root (Inr okEmpty)) r ''X'' calls (Start [])
     = (writeProxyResponse 200 Map.empty [], calls @ [emptyStartRequest])"
  using afterGate_call [of "Start []" "stubEnv root (Inr okEmpty)" r None "''X''" calls]
  by (simp add: stub_start_empty del: actionCall.simps)

lemma dispatch_start_empty:
  "dispatch (stubEnv (Inr (granting ''codespaces'')) (Inr okEmpty))
     (bearerRequest ''POST'' ''/api/codespaces//start'') (Dispatch (Start []))
   = (writeProxyResponse 200 Map.empty [], [scopeRequest ''X'', emptyStartRequest])"
  by (simp add: dispatch_unfold bearer_token stub_gate_ok afterGate_start_empty
        del: dispatch.simps)

text \<open>
  C3.  The start and stop handlers do not always get a name that is not empty: the
  check for a missing name looks at what follows the prefix before the suffix is taken
  off.  For a POST with the path \<open>/api/codespaces//start\<close> the rest is \<open>/start\<close>, which is
  not empty, the start handler is called with the empty name, and the request
  \<open>POST /user/codespaces//start\<close> goes upstream; likewise for \<open>/stop\<close>.
\<close>

theorem start_with_empty_name:
  "itemRoute ''POST'' ''/api/codespaces//start'' = Dispatch (Start [])
   \<and> itemRoute ''POST'' ''/api/codespaces//stop'' = Dispatch (Stop [])
   \<and> codespacesItem (stubEnv (Inr (granting ''codespaces'')) (Inr okEmpty))
        (bearerRequest ''POST'' ''/api/codespaces//start'')
       = (Inr \<lparr>Code = 200, RespHeader = [''Content-Type'' \<mapsto> [''application/json'']],
                Written = []\<rparr>,
          [scopeRequest ''X'', emptyStartRequest])
   \<and> reqPath emptyStartRequest = ''/user/codespaces//start''"
  by (simp add: codespacesItem_def bearer_fields route_evals dispatch_start_empty proxy_ok_empty
        emptyStartRequest_def del: dispatch.simps)

text \<open>
  The rest of what the spec says of start and stop holds: they are chosen for a POST
  only, and only when what follows the prefix is the name followed by \<open>/start\<close> or
  \<open>/stop\<close>; the name that the handler gets is that rest with the suffix taken off.  So
  \<open>POST /api/codespaces/my-cs/start\<close> resolves to start with the name \<open>my-cs\<close>, and a POST
  of the bare name \<open>/api/codespaces/my-cs\<close> is answered with 405.
\<close>

lemma start_stop_by_suffix:
  "(itemRoute m p = Dispatch (Start name) \<longleftrightarrow>
      m = ''POST'' \<and> TrimPrefix p ''/api/codespaces/'' = name @ ''/start'')
   \<and> (itemRoute m p = Dispatch (Stop name) \<longleftrightarrow>
      m = ''POST'' \<and> TrimPrefix p ''/api/codespaces/'' = name @ ''/stop'')"
proof -
  let ?rest = "TrimPrefix p ''/api/codespaces/''"
  have a: "?rest = name @ ''/start'' \<Longrightarrow> m = ''POST'' \<Longrightarrow> itemRoute m p = Dispatch (Start name)"
    using HasSuffix_iff [of ?rest "''/start''"] TrimSuffix_append [of name "''/start''"]
    by (simp add: itemRoute_def Let_def)
  have b: "?rest = name @ ''/stop'' \<Longrightarrow> m = ''POST'' \<Longrightarrow> itemRoute m p = Dispatch (Stop name)"
    using HasSuffix_iff [of ?rest "''/stop''"] TrimSuffix_append [of name "''/stop''"]
      start_not_stop [of ?rest]
    by (simp add: itemRoute_def Let_def)
  have c: "itemRoute m p = Dispatch (Start name) \<Longrightarrow> m = ''POST'' \<and> ?rest = name @ ''/start''"
    using itemRoute_action [of m p "Start name"] by simp
  have d: "itemRoute m p = Dispatch (Stop name) \<Longrightarrow> m = ''POST'' \<and> ?rest = name @ ''/stop''"
    using itemRoute_action [of m p "Stop name"] by simp
  show ?thesis using a b c d by blast
qed

lemma start_examples:
  "itemRoute ''POST'' ''/api/codespaces/my-cs/start'' = Dispatch (Start ''my-cs'')"
  "itemRoute ''POST'' ''/api/codespaces/my-cs'' = Reject ''method not allowed'' 405"
  by (simp_all add: route_evals)

end
